theory Spec2Isabelle
  imports Complex_Main "HOL-Library.Multiset"
begin

section \<open>JavaScript values as the handlers see them\<close>

text \<open>
  The handlers of \<^verbatim>\<open>server/server.js\<close> and \<^verbatim>\<open>server/routes/*.js\<close> read the fields of a
  parsed JSON body and combine them with the operators of JavaScript. The model keeps the
  primitive values of JavaScript (a field that is absent reads as \<open>JUndefined\<close>); array and
  object valued body fields are outside the model.

  Numbers: a JavaScript number is an IEEE double. The model keeps the three special values
  apart and takes every finite number as an exact rational, so the rounding and the
  overflow of doubles are not modelled (the concrete figures below are small numbers on
  which doubles are exact), and the negative zero is identified with zero.
\<close>

datatype jsnum = NaN | PInf | NInf | Fin rat

datatype jsval = JUndefined | JNull | JBool bool | JNum jsnum | JStr string

fun num_neg :: "jsnum \<Rightarrow> jsnum" where
  "num_neg NaN = NaN"
| "num_neg PInf = NInf"
| "num_neg NInf = PInf"
| "num_neg (Fin a) = Fin (- a)"

text \<open>The infinity that carries the sign of a non-zero rational.\<close>

definition inf_signed :: "rat \<Rightarrow> jsnum" where
  "inf_signed a = (if 0 < a then PInf else NInf)"

text \<open>The operators \<^verbatim>\<open>+\<close>, \<^verbatim>\<open>*\<close> and \<^verbatim>\<open>/\<close> on two numbers.\<close>

fun num_add :: "jsnum \<Rightarrow> jsnum \<Rightarrow> jsnum" where
  "num_add (Fin a) (Fin b) = Fin (a + b)"
| "num_add (Fin a) PInf = PInf"
| "num_add (Fin a) NInf = NInf"
| "num_add PInf (Fin b) = PInf"
| "num_add NInf (Fin b) = NInf"
| "num_add PInf PInf = PInf"
| "num_add NInf NInf = NInf"
| "num_add PInf NInf = NaN"
| "num_add NInf PInf = NaN"
| "num_add NaN y = NaN"
| "num_add x NaN = NaN"

fun num_mul :: "jsnum \<Rightarrow> jsnum \<Rightarrow> jsnum" where
  "num_mul (Fin a) (Fin b) = Fin (a * b)"
| "num_mul (Fin a) PInf = (if a = 0 then NaN else inf_signed a)"
| "num_mul (Fin a) NInf = (if a = 0 then NaN else inf_signed (- a))"
| "num_mul PInf (Fin b) = (if b = 0 then NaN else inf_signed b)"
| "num_mul NInf (Fin b) = (if b = 0 then NaN else inf_signed (- b))"
| "num_mul PInf PInf = PInf"
| "num_mul NInf NInf = PInf"
| "num_mul PInf NInf = NInf"
| "num_mul NInf PInf = NInf"
| "num_mul NaN y = NaN"
| "num_mul x NaN = NaN"

fun num_div :: "jsnum \<Rightarrow> jsnum \<Rightarrow> jsnum" where
  "num_div (Fin a) (Fin b) =
     (if b = 0 then (if a = 0 then NaN else inf_signed a) else Fin (a / b))"
| "num_div (Fin a) PInf = Fin 0"
| "num_div (Fin a) NInf = Fin 0"
| "num_div PInf (Fin b) = (if b < 0 then NInf else PInf)"
| "num_div NInf (Fin b) = (if b < 0 then PInf else NInf)"
| "num_div PInf PInf = NaN"
| "num_div NInf NInf = NaN"
| "num_div PInf NInf = NaN"
| "num_div NInf PInf = NaN"
| "num_div NaN y = NaN"
| "num_div x NaN = NaN"

text \<open>Truthiness, as \<^verbatim>\<open>!x\<close>, \<^verbatim>\<open>x ? a : b\<close> and \<^verbatim>\<open>x || y\<close> test it.\<close>

fun truthy :: "jsval \<Rightarrow> bool" where
  "truthy JUndefined = False"
| "truthy JNull = False"
| "truthy (JBool b) = b"
| "truthy (JNum n) = (n \<noteq> NaN \<and> n \<noteq> Fin 0)"
| "truthy (JStr s) = (s \<noteq> [])"

subsection \<open>Reading a number out of a string\<close>

text \<open>
  \<^verbatim>\<open>parseFloat\<close> and the conversion of a string operand of \<^verbatim>\<open>*\<close> and \<^verbatim>\<open>/\<close> both read the
  decimal literals of ECMAScript (\<open>StrDecimalLiteral\<close>): an optional sign, then either
  \<^verbatim>\<open>Infinity\<close> or digits with an optional fraction and an optional exponent.
  \<^verbatim>\<open>parseFloat\<close> takes the longest prefix that is such a literal; the operand conversion
  wants the whole trimmed string to be one, reads the empty string as 0 and knows the
  \<^verbatim>\<open>0x\<close>, \<^verbatim>\<open>0o\<close> and \<^verbatim>\<open>0b\<close> integers as well. Strings are sequences of code units below 256.
\<close>

definition is_white_space :: "char \<Rightarrow> bool" where
  "is_white_space c =
     (c \<in> set [CHR 0x09, CHR 0x0A, CHR 0x0B, CHR 0x0C, CHR 0x0D, CHR 0x20, CHR 0xA0])"

definition dec_digit :: "char \<Rightarrow> nat option" where
  "dec_digit = map_of
     [(CHR ''0'', 0), (CHR ''1'', 1), (CHR ''2'', 2), (CHR ''3'', 3), (CHR ''4'', 4),
      (CHR ''5'', 5), (CHR ''6'', 6), (CHR ''7'', 7), (CHR ''8'', 8), (CHR ''9'', 9)]"

definition hex_digit :: "char \<Rightarrow> nat option" where
  "hex_digit c = (case dec_digit c of Some v \<Rightarrow> Some v | None \<Rightarrow> map_of
     [(CHR ''a'', 10), (CHR ''b'', 11), (CHR ''c'', 12), (CHR ''d'', 13), (CHR ''e'', 14),
      (CHR ''f'', 15), (CHR ''A'', 10), (CHR ''B'', 11), (CHR ''C'', 12), (CHR ''D'', 13),
      (CHR ''E'', 14), (CHR ''F'', 15)] c)"

definition oct_digit :: "char \<Rightarrow> nat option" where
  "oct_digit c = (case dec_digit c of Some v \<Rightarrow> (if v < 8 then Some v else None) | None \<Rightarrow> None)"

definition bin_digit :: "char \<Rightarrow> nat option" where
  "bin_digit c = (case dec_digit c of Some v \<Rightarrow> (if v < 2 then Some v else None) | None \<Rightarrow> None)"

text \<open>The longest run of digits at the front of a string, and what is left.\<close>

fun take_digits :: "(char \<Rightarrow> nat option) \<Rightarrow> string \<Rightarrow> nat list \<times> string" where
  "take_digits d [] = ([], [])"
| "take_digits d (c # cs) =
     (case d c of
        None \<Rightarrow> ([], c # cs)
      | Some v \<Rightarrow> (case take_digits d cs of (vs, r) \<Rightarrow> (v # vs, r)))"

definition digits_val :: "nat \<Rightarrow> nat list \<Rightarrow> nat" where
  "digits_val base vs = foldl (\<lambda>a v. a * base + v) 0 vs"

definition pow10 :: "int \<Rightarrow> rat" where
  "pow10 e = (if 0 \<le> e then 10 ^ nat e else 1 / 10 ^ nat (- e))"

text \<open>
  An exponent part at the front of the string: its value and the rest. Where the string
  does not start with one (an \<^verbatim>\<open>e\<close> with no digit after it is none), the exponent is 0 and
  nothing is consumed.
\<close>

definition parse_exponent :: "string \<Rightarrow> int \<times> string" where
  "parse_exponent s =
     (case s of
        [] \<Rightarrow> (0, s)
      | c # r \<Rightarrow>
          if c = CHR ''e'' \<or> c = CHR ''E'' then
            (case (case r of
                     [] \<Rightarrow> (False, r)
                   | g # r2 \<Rightarrow>
                       if g = CHR ''-'' then (True, r2)
                       else if g = CHR ''+'' then (False, r2)
                       else (False, r)) of
               (neg, r') \<Rightarrow>
                 (case take_digits dec_digit r' of
                    (ds, rest) \<Rightarrow>
                      if ds = [] then (0, s)
                      else (if neg then - int (digits_val 10 ds) else int (digits_val 10 ds), rest)))
          else (0, s))"

definition mantissa :: "nat list \<Rightarrow> nat list \<Rightarrow> rat" where
  "mantissa ip fp = of_nat (digits_val 10 ip) + of_nat (digits_val 10 fp) / 10 ^ length fp"

text \<open>The longest unsigned decimal literal at the front of a string, if there is one.\<close>

definition parse_unsigned :: "string \<Rightarrow> (jsnum \<times> string) option" where
  "parse_unsigned s =
     (if take 8 s = ''Infinity'' then Some (PInf, drop 8 s)
      else
        (case take_digits dec_digit s of
           (ip, r1) \<Rightarrow>
             (case r1 of
                [] \<Rightarrow> (if ip = [] then None else Some (Fin (mantissa ip []), []))
              | c # r \<Rightarrow>
                  if c = CHR ''.'' then
                    (case take_digits dec_digit r of
                       (fp, r2) \<Rightarrow>
                         if ip = [] \<and> fp = [] then None
                         else (case parse_exponent r2 of
                                 (e, rest) \<Rightarrow> Some (Fin (mantissa ip fp * pow10 e), rest)))
                  else if ip = [] then None
                  else (case parse_exponent r1 of
                          (e, rest) \<Rightarrow> Some (Fin (mantissa ip [] * pow10 e), rest)))))"

definition parse_decimal :: "string \<Rightarrow> (jsnum \<times> string) option" where
  "parse_decimal s =
     (case s of
        [] \<Rightarrow> None
      | c # r \<Rightarrow>
          if c = CHR ''-'' then map_option (\<lambda>(v, rest). (num_neg v, rest)) (parse_unsigned r)
          else if c = CHR ''+'' then parse_unsigned r
          else parse_unsigned s)"

definition trim_start :: "string \<Rightarrow> string" where
  "trim_start s = dropWhile is_white_space s"

definition trim :: "string \<Rightarrow> string" where
  "trim s = rev (dropWhile is_white_space (rev (dropWhile is_white_space s)))"

definition parse_radix :: "nat \<Rightarrow> (char \<Rightarrow> nat option) \<Rightarrow> string \<Rightarrow> jsnum" where
  "parse_radix base d s =
     (case take_digits d s of
        (ds, rest) \<Rightarrow> if ds \<noteq> [] \<and> rest = [] then Fin (of_nat (digits_val base ds)) else NaN)"

text \<open>\<^verbatim>\<open>Number(s)\<close> for a string \<open>s\<close>: the conversion an arithmetic operator applies.\<close>

definition string_to_number :: "string \<Rightarrow> jsnum" where
  "string_to_number s =
     (let t = trim s in
      if t = [] then Fin 0
      else if take 2 t = ''0x'' \<or> take 2 t = ''0X'' then parse_radix 16 hex_digit (drop 2 t)
      else if take 2 t = ''0o'' \<or> take 2 t = ''0O'' then parse_radix 8 oct_digit (drop 2 t)
      else if take 2 t = ''0b'' \<or> take 2 t = ''0B'' then parse_radix 2 bin_digit (drop 2 t)
      else (case parse_decimal t of
              None \<Rightarrow> NaN
            | Some (v, rest) \<Rightarrow> if rest = [] then v else NaN))"

fun to_number :: "jsval \<Rightarrow> jsnum" where
  "to_number JUndefined = NaN"
| "to_number JNull = Fin 0"
| "to_number (JBool b) = (if b then Fin 1 else Fin 0)"
| "to_number (JNum n) = n"
| "to_number (JStr s) = string_to_number s"

text \<open>
  \<^verbatim>\<open>parseFloat(x)\<close> reads the text of \<open>x\<close>. The text of a number reads back as that number;
  the texts \<^verbatim>\<open>undefined\<close>, \<^verbatim>\<open>null\<close>, \<^verbatim>\<open>true\<close> and \<^verbatim>\<open>false\<close> start with no literal.
\<close>

definition parseFloat_string :: "string \<Rightarrow> jsnum" where
  "parseFloat_string s =
     (case parse_decimal (trim_start s) of None \<Rightarrow> NaN | Some (v, rest) \<Rightarrow> v)"

fun parseFloat :: "jsval \<Rightarrow> jsnum" where
  "parseFloat (JStr s) = parseFloat_string s"
| "parseFloat (JNum n) = n"
| "parseFloat JUndefined = parseFloat_string ''undefined''"
| "parseFloat JNull = parseFloat_string ''null''"
| "parseFloat (JBool b) = parseFloat_string (if b then ''true'' else ''false'')"

section \<open>Requests and replies\<close>

text \<open>
  \<^verbatim>\<open>req.body\<close> is the parsed JSON object; a handler reads its fields by destructuring, and a
  field the client did not send reads as \<^verbatim>\<open>undefined\<close>.
\<close>

type_synonym body = "(string \<times> jsval) list"

definition body_field :: "body \<Rightarrow> string \<Rightarrow> jsval" where
  "body_field b k = (case map_of b k of None \<Rightarrow> JUndefined | Some v \<Rightarrow> v)"

text \<open>
  What a handler hands to \<^verbatim>\<open>res.status(n).json(...)\<close>: the status and the document, before
  it is serialised (a plain \<^verbatim>\<open>res.json\<close> is status 200). \<open>No_reply\<close> is a handler whose
  promise is rejected before it has answered.
\<close>

datatype json = JV jsval | JArr "json list" | JObj "(string \<times> json) list"

datatype reply = Reply nat json | No_reply

definition error_body :: "string \<Rightarrow> json" where
  "error_body m = JObj [(''error'', JV (JStr m))]"

definition message_body :: "string \<Rightarrow> json" where
  "message_body m = JObj [(''message'', JV (JStr m))]"

section \<open>Property lookup on an object literal\<close>

text \<open>
  \<^verbatim>\<open>pricing[budgetLevel]\<close> reads a property of an object literal: an own property where
  the key names one, else what the key names on \<^verbatim>\<open>Object.prototype\<close>, else \<^verbatim>\<open>undefined\<close>.
  The members of \<^verbatim>\<open>Object.prototype\<close> are built-in functions (\<^verbatim>\<open>__proto__\<close> reads as
  \<^verbatim>\<open>Object.prototype\<close> itself): objects, hence truthy.
\<close>

datatype 'a lookup = Absent | Own 'a | Inherited string

definition object_prototype_members :: "string list" where
  "object_prototype_members =
     [''constructor'', ''__proto__'', ''hasOwnProperty'', ''isPrototypeOf'',
      ''propertyIsEnumerable'', ''toLocaleString'', ''toString'', ''valueOf'',
      ''__defineGetter__'', ''__defineSetter__'', ''__lookupGetter__'', ''__lookupSetter__'']"

text \<open>
  The property key a value stands for. A number stands for its decimal text, which names
  no property of any object looked up here: \<open>None\<close>.
\<close>

fun property_key :: "jsval \<Rightarrow> string option" where
  "property_key (JStr s) = Some s"
| "property_key JUndefined = Some ''undefined''"
| "property_key JNull = Some ''null''"
| "property_key (JBool b) = Some (if b then ''true'' else ''false'')"
| "property_key (JNum n) = None"

definition get_prop :: "(string \<times> 'a) list \<Rightarrow> jsval \<Rightarrow> 'a lookup" where
  "get_prop obj k =
     (case property_key k of
        None \<Rightarrow> Absent
      | Some s \<Rightarrow>
          (case map_of obj s of
             Some v \<Rightarrow> Own v
           | None \<Rightarrow> if s \<in> set object_prototype_members then Inherited s else Absent))"

text \<open>Truthiness of a looked-up property whose own values are objects.\<close>

fun defined_prop :: "'a lookup \<Rightarrow> bool" where
  "defined_prop Absent = False"
| "defined_prop (Own v) = True"
| "defined_prop (Inherited m) = True"

text \<open>Truthiness and numeric value of a looked-up property whose own values are primitive.\<close>

fun truthy_prop :: "jsval lookup \<Rightarrow> bool" where
  "truthy_prop Absent = False"
| "truthy_prop (Own v) = truthy v"
| "truthy_prop (Inherited m) = True"

fun number_of_prop :: "jsval lookup \<Rightarrow> jsnum" where
  "number_of_prop Absent = NaN"
| "number_of_prop (Own v) = to_number v"
| "number_of_prop (Inherited m) = NaN"

section \<open>The budget handler (\<^verbatim>\<open>POST /calculate-budget\<close>, server.js)\<close>

record tier_rates =
  hotelCostPerNight :: rat
  foodCostPerDay :: rat

definition pricing :: "(string \<times> tier_rates) list" where
  "pricing =
     [(''Mid-Range'', \<lparr>hotelCostPerNight = 1500, foodCostPerDay = 600\<rparr>),
      (''Luxury'', \<lparr>hotelCostPerNight = 3000, foodCostPerDay = 1200\<rparr>)]"

definition transportPricing :: "(string \<times> (string \<times> rat) list) list" where
  "transportPricing =
     [(''Bus'', [(''Ordinary State Bus'', 2), (''Volvo Non-AC'', 7 / 2), (''AC Bus'', 5)]),
      (''Train'', [(''Sleeper'', 3 / 2), (''AC 3 Tier'', 3), (''AC 2 Tier'', 9 / 2),
                   (''AC First Class'', 7)]),
      (''Flight'', [(''Economy'', 8), (''Business'', 15), (''First Class'', 25)])]"

text \<open>
  \<^verbatim>\<open>transportPricing[transportMode][transportSubtype]\<close>. Where the mode names a member of
  \<^verbatim>\<open>Object.prototype\<close>, the subtype is looked up on that built-in object: \<open>builtin m k\<close> is
  the property \<open>k\<close> of the member \<open>m\<close>, as the JavaScript engine has it.
\<close>

definition transport_rate :: "(string \<Rightarrow> jsval \<Rightarrow> jsval lookup) \<Rightarrow> jsval \<Rightarrow> jsval \<Rightarrow> jsval lookup" where
  "transport_rate builtin transportMode transportSubtype =
     (case get_prop transportPricing transportMode of
        Absent \<Rightarrow> Absent
      | Own fares \<Rightarrow>
          (case get_prop fares transportSubtype of
             Absent \<Rightarrow> Absent
           | Own r \<Rightarrow> Own (JNum (Fin r))
           | Inherited m \<Rightarrow> Inherited m)
      | Inherited m \<Rightarrow> builtin m transportSubtype)"

text \<open>
  \<^verbatim>\<open>const { hotelCostPerNight, foodCostPerDay } = pricing[budgetLevel]\<close>: a built-in object
  has neither property.
\<close>

fun tier_field :: "(tier_rates \<Rightarrow> rat) \<Rightarrow> tier_rates lookup \<Rightarrow> jsval" where
  "tier_field f (Own e) = JNum (Fin (f e))"
| "tier_field f (Inherited m) = JUndefined"
| "tier_field f Absent = JUndefined"

text \<open>
  The distance-matrix call. \<open>Rejected\<close> is the promise of \<^verbatim>\<open>axios.get\<close> rejected (no
  answer, or an HTTP error status); \<open>Resolved rows\<close> is an answer whose \<^verbatim>\<open>data.rows\<close> are
  \<open>rows\<close>, each row the list of its \<^verbatim>\<open>elements\<close> (an array the answer lacks is the empty
  list: reading its first entry fails the same way). An element's \<open>distance\<close> is \<open>None\<close>
  where it has no \<^verbatim>\<open>distance\<close> object, else the \<^verbatim>\<open>value\<close> property of that object.
\<close>

record dm_request =
  origins :: jsval
  destinations :: jsval

record dm_element =
  distance :: "jsval option"

datatype axios_result = Rejected | Resolved "dm_element list list"

text \<open>
  \<^verbatim>\<open>response.data.rows[0].elements[0].distance?.value\<close>; \<open>None\<close> is the TypeError of reading
  a property of \<^verbatim>\<open>undefined\<close>, which the handler's \<^verbatim>\<open>catch\<close> turns into the 500 reply.
\<close>

definition first_distance_value :: "dm_element list list \<Rightarrow> jsval option" where
  "first_distance_value rows =
     (case rows of
        [] \<Rightarrow> None
      | elements # _ \<Rightarrow>
          (case elements of
             [] \<Rightarrow> None
           | el # _ \<Rightarrow> Some (case distance el of None \<Rightarrow> JUndefined | Some v \<Rightarrow> v)))"

definition or_zero :: "jsval \<Rightarrow> jsval" where
  "or_zero v = (if truthy v then v else JNum (Fin 0))"

definition shopping_cost :: "jsval \<Rightarrow> jsnum" where
  "shopping_cost shoppingAmount = (if truthy shoppingAmount then parseFloat shoppingAmount else Fin 0)"

definition budget_json :: "jsnum \<Rightarrow> jsnum \<Rightarrow> jsnum \<Rightarrow> jsnum \<Rightarrow> jsnum \<Rightarrow> jsnum \<Rightarrow> json" where
  "budget_json distanceKm transportationCost foodCost shoppingCost hotelCost totalCost =
     JObj [(''distanceInKm'', JV (JNum distanceKm)),
           (''transportationCost'', JV (JNum transportationCost)),
           (''foodCost'', JV (JNum foodCost)),
           (''shoppingCost'', JV (JNum shoppingCost)),
           (''hotelCost'', JV (JNum hotelCost)),
           (''totalCost'', JV (JNum totalCost))]"

text \<open>
  The handler, given the engine's built-ins and the distance service. It returns its reply
  and the calls it has made to the service, in order.
\<close>

definition calculate_budget ::
  "(string \<Rightarrow> jsval \<Rightarrow> jsval lookup) \<Rightarrow> (dm_request \<Rightarrow> axios_result) \<Rightarrow> body \<Rightarrow> reply \<times> dm_request list" where
  "calculate_budget builtin axios_get b =
     (let startingPoint = body_field b ''startingPoint'';
          destination = body_field b ''destination'';
          nights = body_field b ''nights'';
          travelers = body_field b ''travelers'';
          budgetLevel = body_field b ''budgetLevel'';
          transportMode = body_field b ''transportMode'';
          transportSubtype = body_field b ''transportSubtype'';
          shoppingAmount = body_field b ''shoppingAmount''
      in
      if \<not> defined_prop (get_prop pricing budgetLevel)
         \<or> \<not> defined_prop (get_prop transportPricing transportMode)
         \<or> \<not> truthy_prop (transport_rate builtin transportMode transportSubtype)
      then (Reply 400 (error_body ''Invalid budget level or transportation type.''), [])
      else
        (let hotelCostPerNight = tier_field hotelCostPerNight (get_prop pricing budgetLevel);
             foodCostPerDay = tier_field foodCostPerDay (get_prop pricing budgetLevel);
             perKmRate = transport_rate builtin transportMode transportSubtype;
             request = \<lparr>origins = startingPoint, destinations = destination\<rparr>
         in
         (case axios_get request of
            Rejected \<Rightarrow> (Reply 500 (error_body ''Error fetching distance data.''), [request])
          | Resolved rows \<Rightarrow>
              (case first_distance_value rows of
                 None \<Rightarrow> (Reply 500 (error_body ''Error fetching distance data.''), [request])
               | Some v \<Rightarrow>
                   (let distance = or_zero v;
                        distanceKm = num_div (to_number distance) (Fin 1000);
                        transportationCost =
                          num_mul (num_mul (to_number travelers) distanceKm) (number_of_prop perKmRate);
                        foodCost =
                          num_mul (num_mul (to_number travelers) (to_number nights))
                            (to_number foodCostPerDay);
                        shoppingCost = shopping_cost shoppingAmount;
                        hotelCost =
                          num_mul (num_mul (to_number travelers) (to_number nights))
                            (to_number hotelCostPerNight);
                        totalCost =
                          num_add (num_add (num_add transportationCost foodCost) shoppingCost) hotelCost
                    in
                    (Reply 200
                       (budget_json distanceKm transportationCost foodCost shoppingCost hotelCost
                          totalCost),
                     [request]))))))"

section \<open>The stores\<close>

text \<open>
  \<^verbatim>\<open>User\<close> and \<^verbatim>\<open>Travel\<close> are the two collections (\<^verbatim>\<open>userSchema\<close>, \<^verbatim>\<open>travelSchema\<close> of
  server.js; the routes under \<^verbatim>\<open>routes/\<close> load \<^verbatim>\<open>../models/User\<close>, which is taken to be the
  same schema). A collection is the list of its documents in insertion order. A document
  keeps the values the handler gave it: the casting of values to the schema's types is not
  modelled, and the store answers every operation.
\<close>

record user =
  user_id :: string
  name :: jsval
  email :: jsval
  password :: string

record travel =
  travel_id :: string
  userId :: string
  destination :: jsval
  budget :: jsval
  date :: nat
  nights :: jsval

text \<open>
  The key a value has in a query and in the unique index: a field that is \<^verbatim>\<open>undefined\<close> is
  not stored, and a missing field matches and indexes as \<^verbatim>\<open>null\<close>.
\<close>

definition index_key :: "jsval \<Rightarrow> jsval" where
  "index_key v = (if v = JUndefined then JNull else v)"

text \<open>\<^verbatim>\<open>User.findOne({ email })\<close>.\<close>

definition findOne_email :: "user list \<Rightarrow> jsval \<Rightarrow> user option" where
  "findOne_email users e = find (\<lambda>u. index_key (email u) = index_key e) users"

text \<open>
  \<^verbatim>\<open>user.save()\<close> of a new document: the unique index on \<^verbatim>\<open>email\<close> refuses a second
  document with the same key (\<open>None\<close>: the duplicate-key error).
\<close>

definition save_user :: "user list \<Rightarrow> user \<Rightarrow> user list option" where
  "save_user users u =
     (case findOne_email users (email u) of
        Some existing \<Rightarrow> None
      | None \<Rightarrow> Some (users @ [u]))"

text \<open>\<^verbatim>\<open>User.findById(id)\<close>.\<close>

definition findById :: "user list \<Rightarrow> string \<Rightarrow> user option" where
  "findById users i = find (\<lambda>u. user_id u = i) users"

section \<open>Hashing and tokens\<close>

text \<open>
  bcryptjs and jsonwebtoken are libraries. Their functions are parameters of the model:
  \<open>bcrypt_hash salt pw\<close> is the hash \<^verbatim>\<open>bcrypt.hash(pw, 10)\<close> gives when it draws \<open>salt\<close>,
  \<open>bcrypt_compare pw h\<close> is \<^verbatim>\<open>bcrypt.compare(pw, h)\<close>; both reject an argument that is not
  a string, which the handlers below write out. \<open>hmac\<close> signs a payload under a secret,
  \<open>jwt_encode\<close> and \<open>jwt_decode\<close> are the wire format of a token.
\<close>

record payload =
  payload_id :: string
  payload_iat :: nat
  payload_exp :: nat

record 'sg env =
  bcrypt_hash :: "string \<Rightarrow> string \<Rightarrow> string"
  bcrypt_compare :: "string \<Rightarrow> string \<Rightarrow> bool"
  JWT_SECRET :: string
  hmac :: "string \<Rightarrow> payload \<Rightarrow> 'sg"
  jwt_encode :: "payload \<times> 'sg \<Rightarrow> string"
  jwt_decode :: "string \<Rightarrow> (payload \<times> 'sg) option"

datatype jwt_error = JsonWebTokenError | TokenExpiredError

text \<open>
  Modelled from the spec: \<^verbatim>\<open>jwt.sign\<close> and \<^verbatim>\<open>jwt.verify\<close> of the jsonwebtoken library, which
  is not among the sources. The spec: login "issues a signed token encoding the user id,
  with a fixed validity window of 1 hour, signed with a process-wide secret"; a token that
  is "invalid/expired/signature-mismatch" fails. \<open>now\<close> is the clock in seconds.
\<close>

definition jwt_sign :: "'sg env \<Rightarrow> string \<Rightarrow> nat \<Rightarrow> string" where
  "jwt_sign env i now =
     (let p = \<lparr>payload_id = i, payload_iat = now, payload_exp = now + 3600\<rparr>
      in jwt_encode env (p, hmac env (JWT_SECRET env) p))"

definition jwt_verify :: "'sg env \<Rightarrow> string \<Rightarrow> nat \<Rightarrow> jwt_error + payload" where
  "jwt_verify env token now =
     (case jwt_decode env token of
        None \<Rightarrow> Inl JsonWebTokenError
      | Some (p, sg) \<Rightarrow>
          if sg \<noteq> hmac env (JWT_SECRET env) p then Inl JsonWebTokenError
          else if payload_exp p \<le> now then Inl TokenExpiredError
          else Inr p)"

section \<open>The authentication gate (\<^verbatim>\<open>authenticateToken\<close>, server.js)\<close>

text \<open>\<^verbatim>\<open>s.split(sep)\<close> for a separator of one character.\<close>

fun split_on :: "char \<Rightarrow> string \<Rightarrow> string list" where
  "split_on sep [] = [[]]"
| "split_on sep (c # cs) =
     (if c = sep then [] # split_on sep cs
      else (case split_on sep cs of [] \<Rightarrow> [[c]] | w # ws \<Rightarrow> (c # w) # ws))"

text \<open>\<^verbatim>\<open>req.headers.authorization?.split(' ')[1]\<close>; \<open>None\<close> is \<^verbatim>\<open>undefined\<close>.\<close>

definition bearer_token :: "string option \<Rightarrow> string option" where
  "bearer_token authorization =
     (case authorization of
        None \<Rightarrow> None
      | Some h \<Rightarrow> (case split_on (CHR '' '') h of _ # t # _ \<Rightarrow> Some t | _ \<Rightarrow> None))"

text \<open>The middleware either hands the decoded payload on (\<^verbatim>\<open>req.user\<close>, \<^verbatim>\<open>next()\<close>) or answers.\<close>

datatype gate = Next payload | Halt reply

definition authenticateToken :: "'sg env \<Rightarrow> nat \<Rightarrow> string option \<Rightarrow> gate" where
  "authenticateToken env now authorization =
     (case bearer_token authorization of
        None \<Rightarrow> Halt (Reply 401 (error_body ''Access denied!''))
      | Some token \<Rightarrow>
          if token = [] then Halt (Reply 401 (error_body ''Access denied!''))
          else (case jwt_verify env token now of
                  Inr decoded \<Rightarrow> Next decoded
                | Inl err \<Rightarrow> Halt (Reply 403 (error_body ''Invalid token!''))))"

section \<open>Signup and login\<close>

text \<open>
  \<^verbatim>\<open>POST /signup\<close> of server.js. \<open>salt\<close> is the salt the hash draws and \<open>oid\<close> the identifier
  \<^verbatim>\<open>new User\<close> gives the document.
\<close>

definition signup :: "'sg env \<Rightarrow> string \<Rightarrow> string \<Rightarrow> user list \<Rightarrow> body \<Rightarrow> reply \<times> user list" where
  "signup env salt oid users b =
     (let name = body_field b ''name'';
          email = body_field b ''email'';
          password = body_field b ''password''
      in
      if \<not> truthy name \<or> \<not> truthy email \<or> \<not> truthy password
      then (Reply 400 (error_body ''All fields are required!''), users)
      else
        (case findOne_email users email of
           Some existingUser \<Rightarrow> (Reply 400 (error_body ''Email already exists!''), users)
         | None \<Rightarrow>
             (case password of
                JStr pw \<Rightarrow>
                  (let hashedPassword = bcrypt_hash env salt pw;
                       user = \<lparr>user_id = oid, name = name, email = email, password = hashedPassword\<rparr>
                   in
                   (case save_user users user of
                      Some users' \<Rightarrow> (Reply 201 (message_body ''User registered successfully!''), users')
                    | None \<Rightarrow> (Reply 500 (error_body ''Internal server error!''), users)))
              | _ \<Rightarrow> (Reply 500 (error_body ''Internal server error!''), users))))"

text \<open>
  \<^verbatim>\<open>POST /signup\<close> of routes/auth.js. The hash is taken before the \<^verbatim>\<open>try\<close>: a password that
  is not a string rejects the handler's promise, and nothing is answered.
\<close>

definition signup_route :: "'sg env \<Rightarrow> string \<Rightarrow> string \<Rightarrow> user list \<Rightarrow> body \<Rightarrow> reply \<times> user list" where
  "signup_route env salt oid users b =
     (let name = body_field b ''name'';
          email = body_field b ''email'';
          password = body_field b ''password''
      in
      (case password of
         JStr pw \<Rightarrow>
           (let hashedPassword = bcrypt_hash env salt pw;
                user = \<lparr>user_id = oid, name = name, email = email, password = hashedPassword\<rparr>
            in
            (case save_user users user of
               Some users' \<Rightarrow> (Reply 201 (message_body ''User registered successfully!''), users')
             | None \<Rightarrow> (Reply 400 (error_body ''Email already exists!''), users)))
       | _ \<Rightarrow> (No_reply, users)))"

text \<open>The body of a successful login: server.js and routes/auth.js.\<close>

definition login_json :: "string \<Rightarrow> user \<Rightarrow> json" where
  "login_json token user =
     JObj [(''message'', JV (JStr ''Login successful!'')),
           (''token'', JV (JStr token)),
           (''user'', JObj [(''id'', JV (JStr (user_id user))),
                            (''name'', JV (name user)),
                            (''email'', JV (email user))])]"

text \<open>\<^verbatim>\<open>user.travelHistory || []\<close>: the schema has no such path, so the array is empty.\<close>

definition login_route_json :: "string \<Rightarrow> user \<Rightarrow> json" where
  "login_route_json token user =
     JObj [(''message'', JV (JStr ''Login successful!'')),
           (''token'', JV (JStr token)),
           (''user'', JObj [(''id'', JV (JStr (user_id user))),
                            (''username'', JV (name user)),
                            (''email'', JV (email user)),
                            (''travelHistory'', JArr [])])]"

definition login :: "'sg env \<Rightarrow> nat \<Rightarrow> user list \<Rightarrow> body \<Rightarrow> reply" where
  "login env now users b =
     (let email = body_field b ''email'';
          password = body_field b ''password''
      in
      if \<not> truthy email \<or> \<not> truthy password
      then Reply 400 (error_body ''All fields are required!'')
      else
        (case findOne_email users email of
           None \<Rightarrow> Reply 400 (error_body ''Invalid email or password!'')
         | Some user \<Rightarrow>
             (case password of
                JStr pw \<Rightarrow>
                  if \<not> bcrypt_compare env pw (user.password user)
                  then Reply 400 (error_body ''Invalid email or password!'')
                  else Reply 200 (login_json (jwt_sign env (user_id user) now) user)
              | _ \<Rightarrow> Reply 500 (error_body ''Internal server error!''))))"

definition login_route :: "'sg env \<Rightarrow> nat \<Rightarrow> user list \<Rightarrow> body \<Rightarrow> reply" where
  "login_route env now users b =
     (let email = body_field b ''email'';
          password = body_field b ''password''
      in
      (case findOne_email users email of
         None \<Rightarrow> Reply 400 (error_body ''Invalid email or password!'')
       | Some user \<Rightarrow>
           (case password of
              JStr pw \<Rightarrow>
                if \<not> bcrypt_compare env pw (user.password user)
                then Reply 400 (error_body ''Invalid email or password!'')
                else Reply 200 (login_route_json (jwt_sign env (user_id user) now) user)
            | _ \<Rightarrow> Reply 500 (error_body ''Internal server error!''))))"

section \<open>The user document (\<^verbatim>\<open>GET /user-data\<close>, routes/user.js)\<close>

definition user_document :: "user \<Rightarrow> (string \<times> json) list" where
  "user_document u =
     [(''_id'', JV (JStr (user_id u))), (''name'', JV (name u)), (''email'', JV (email u)),
      (''password'', JV (JStr (password u))), (''__v'', JV (JNum (Fin 0)))]"

text \<open>\<^verbatim>\<open>.select('-password')\<close>: the document without the named path.\<close>

definition select_minus :: "string \<Rightarrow> (string \<times> json) list \<Rightarrow> (string \<times> json) list" where
  "select_minus k doc = filter (\<lambda>(k', v). k' \<noteq> k) doc"

definition user_data :: "payload \<Rightarrow> user list \<Rightarrow> reply" where
  "user_data decoded users =
     (case findById users (payload_id decoded) of
        None \<Rightarrow> Reply 200 (JV JNull)
      | Some user \<Rightarrow> Reply 200 (JObj (select_minus ''password'' (user_document user))))"

definition user_data_route :: "'sg env \<Rightarrow> nat \<Rightarrow> string option \<Rightarrow> user list \<Rightarrow> reply" where
  "user_data_route env now authorization users =
     (case authenticateToken env now authorization of
        Halt r \<Rightarrow> r
      | Next decoded \<Rightarrow> user_data decoded users)"

section \<open>Travel records (\<^verbatim>\<open>POST /save-travel\<close>, \<^verbatim>\<open>GET /travel-history\<close>, server.js)\<close>

text \<open>
  The handler behind the gate: \<open>decoded\<close> is \<^verbatim>\<open>req.user\<close>, \<open>clock\<close> is \<^verbatim>\<open>new Date()\<close> and \<open>oid\<close>
  the identifier \<^verbatim>\<open>new Travel\<close> gives the document.
\<close>

definition save_travel :: "payload \<Rightarrow> nat \<Rightarrow> string \<Rightarrow> travel list \<Rightarrow> body \<Rightarrow> reply \<times> travel list" where
  "save_travel decoded clock oid travels b =
     (let destination = body_field b ''destination'';
          budget = body_field b ''budget'';
          nights = body_field b ''nights''
      in
      if \<not> truthy destination \<or> \<not> truthy budget \<or> \<not> truthy nights
      then (Reply 400 (error_body ''All fields are required!''), travels)
      else
        (Reply 201 (message_body ''Travel data saved successfully!''),
         travels @ [\<lparr>travel_id = oid, userId = payload_id decoded, destination = destination,
                      budget = budget, date = clock, nights = nights\<rparr>]))"

definition save_travel_route ::
  "'sg env \<Rightarrow> nat \<Rightarrow> string option \<Rightarrow> nat \<Rightarrow> string \<Rightarrow> travel list \<Rightarrow> body \<Rightarrow> reply \<times> travel list" where
  "save_travel_route env now authorization clock oid travels b =
     (case authenticateToken env now authorization of
        Halt r \<Rightarrow> (r, travels)
      | Next decoded \<Rightarrow> save_travel decoded clock oid travels b)"







section \<open>Reading a reply\<close>


text \<open>Whether a document has a field of the given name, at any depth.\<close>

fun has_field :: "string \<Rightarrow> json \<Rightarrow> bool" where
  "has_field k (JV v) = False"
| "has_field k (JArr xs) = list_ex (has_field k) xs"
| "has_field k (JObj kvs) = list_ex (\<lambda>kv. fst kv = k \<or> has_field k (snd kv)) kvs"

fun reply_has_field :: "string \<Rightarrow> reply \<Rightarrow> bool" where
  "reply_has_field k (Reply st j) = has_field k j"
| "reply_has_field k No_reply = False"

section \<open>Concrete requests\<close>



definition inherited_tier_body :: body where
  "inherited_tier_body =
     [(''startingPoint'', JStr ''Delhi''), (''destination'', JStr ''Agra''),
      (''nights'', JNum (Fin 3)), (''travelers'', JNum (Fin 2)),
      (''budgetLevel'', JStr ''constructor''), (''transportMode'', JStr ''Bus''),
      (''transportSubtype'', JStr ''AC Bus'')]"

definition respond_with :: "jsval \<Rightarrow> dm_request \<Rightarrow> axios_result" where
  "respond_with v request = Resolved [[\<lparr>distance = Some v\<rparr>]]"

section \<open>A concrete environment\<close>

text \<open>
  An instance of the library parameters, for evaluating the handlers on concrete requests:
  a hash that keeps the salt in front of the password, a signature that joins the secret
  and the user identifier, and a wire format that knows the one token it has issued (to
  the user \<^verbatim>\<open>u1\<close> at second 1000).
\<close>

definition demo_env :: "string env" where
  "demo_env =
     \<lparr>bcrypt_hash = (\<lambda>salt pw. salt @ ''$'' @ pw),
      bcrypt_compare = (\<lambda>pw h. dropWhile (\<lambda>c. c \<noteq> CHR ''$'') h = ''$'' @ pw),
      JWT_SECRET = ''s3cret'',
      hmac = (\<lambda>k p. k @ '':'' @ payload_id p),
      jwt_encode = (\<lambda>(p, sg). payload_id p @ ''.'' @ sg),
      jwt_decode = (\<lambda>t.
         if t = ''u1.s3cret:u1''
         then Some (\<lparr>payload_id = ''u1'', payload_iat = 1000, payload_exp = 4600\<rparr>, ''s3cret:u1'')
         else if t = ''u1.forged''
         then Some (\<lparr>payload_id = ''u1'', payload_iat = 1000, payload_exp = 4600\<rparr>, ''forged'')
         else None)\<rparr>"

definition asha :: user where
  "asha = \<lparr>user_id = ''u1'', name = JStr ''Asha'', email = JStr ''asha@example.com'',
            password = ''salt$pw1''\<rparr>"

definition asha_signup :: body where
  "asha_signup = [(''name'', JStr ''Asha''), (''email'', JStr ''asha@example.com''),
                  (''password'', JStr ''pw1'')]"

definition asha_login :: body where
  "asha_login = [(''email'', JStr ''asha@example.com''), (''password'', JStr ''pw1'')]"

definition asha_payload :: payload where
  "asha_payload = \<lparr>payload_id = ''u1'', payload_iat = 1000, payload_exp = 4600\<rparr>"

definition ravi_payload :: payload where
  "ravi_payload = \<lparr>payload_id = ''u2'', payload_iat = 1000, payload_exp = 4600\<rparr>"

definition trip :: "string \<Rightarrow> string \<Rightarrow> nat \<Rightarrow> travel" where
  "trip i owner d = \<lparr>travel_id = i, userId = owner, destination = JStr ''Goa'',
                      budget = JNum (Fin 5000), date = d, nights = JNum (Fin 2)\<rparr>"

definition goa_trip :: body where
  "goa_trip = [(''destination'', JStr ''Goa''), (''budget'', JNum (Fin 5000)),
               (''nights'', JNum (Fin 2))]"

definition asha_again :: body where
  "asha_again = [(''name'', JStr ''Mallory''), (''email'', JStr ''asha@example.com''),
                 (''password'', JStr ''other'')]"

definition nameless_signup :: body where
  "nameless_signup = [(''name'', JStr ''''), (''email'', JStr ''ravi@example.com''),
                      (''password'', JStr '''')]"


section \<open>Properties of the budget handler\<close>


lemmas table_defs = get_prop_def pricing_def transportPricing_def object_prototype_members_def body_field_def

lemma own_fare_nonzero:
  assumes "get_prop transportPricing mode = Own fares" and "get_prop fares subtype = Own r"
  shows "r \<noteq> 0"
proof -
  from assms(1) obtain m where m: "map_of transportPricing m = Some fares"
    by (auto simp: get_prop_def split: option.splits if_splits)
  from assms(2) obtain s where s: "map_of fares s = Some r"
    by (auto simp: get_prop_def split: option.splits if_splits)
  from m s show ?thesis
    by (auto simp: transportPricing_def split: if_splits)
qed






text \<open>
  A tier that names no property at all, and a transport mode or subtype that names none,
  are refused before the distance service is called.
\<close>

lemma unknown_tier_fails_fast:
  assumes "body_field b ''budgetLevel'' = JStr tier"
    and "map_of pricing tier = None" and "tier \<notin> set object_prototype_members"
  shows "calculate_budget builtin axios_get b =
     (Reply 400 (error_body ''Invalid budget level or transportation type.''), [])"
  using assms by (simp add: calculate_budget_def get_prop_def Let_def)

lemma unknown_transport_fails_fast:
  assumes "get_prop transportPricing (body_field b ''transportMode'') = Absent
     \<or> (\<exists>fares. get_prop transportPricing (body_field b ''transportMode'') = Own fares
          \<and> get_prop fares (body_field b ''transportSubtype'') = Absent)"
  shows "calculate_budget builtin axios_get b =
     (Reply 400 (error_body ''Invalid budget level or transportation type.''), [])"
  using assms by (auto simp add: calculate_budget_def transport_rate_def Let_def)

text \<open>
  C5. The claim: a request with an unknown tier fails validation before any call to the
  distance service. The check \<^verbatim>\<open>!pricing[budgetLevel]\<close> also finds what the table inherits:
  for a tier that is the name of a member of \<^verbatim>\<open>Object.prototype\<close> (\<^verbatim>\<open>constructor\<close>,
  \<^verbatim>\<open>toString\<close>, ...) and a transport of the table, the tier is no entry of the pricing table,
  yet the handler does not answer 400 and calls the distance service once.
\<close>

theorem C5_inherited_tier_reaches_service:
  assumes tier: "body_field b ''budgetLevel'' = JStr tier"
    and member: "tier \<in> set object_prototype_members"
    and mode: "get_prop transportPricing (body_field b ''transportMode'') = Own fares"
    and fare: "get_prop fares (body_field b ''transportSubtype'') = Own r"
  shows "map_of pricing tier = None
    \<and> fst (calculate_budget builtin axios_get b)
        \<noteq> Reply 400 (error_body ''Invalid budget level or transportation type.'')
    \<and> snd (calculate_budget builtin axios_get b)
        = [\<lparr>origins = body_field b ''startingPoint'', destinations = body_field b ''destination''\<rparr>]"
proof -
  have none: "map_of pricing tier = None"
    using member by (auto simp: pricing_def object_prototype_members_def)
  then have inh: "get_prop pricing (body_field b ''budgetLevel'') = Inherited tier"
    using tier member by (simp add: get_prop_def)
  have "r \<noteq> 0" using mode fare by (rule own_fare_nonzero)
  then have "fst (calculate_budget builtin axios_get b)
        \<noteq> Reply 400 (error_body ''Invalid budget level or transportation type.'')
    \<and> snd (calculate_budget builtin axios_get b)
        = [\<lparr>origins = body_field b ''startingPoint'', destinations = body_field b ''destination''\<rparr>]"
    by (simp add: calculate_budget_def transport_rate_def inh mode fare Let_def
          split: axios_result.splits option.splits)
  with none show ?thesis by simp
qed

text \<open>
  At the tier \<^verbatim>\<open>constructor\<close>, with the transport of the spec's example: the service is
  called, and the reply is a 200 whose food, hotel and total costs are NaN.
\<close>

theorem C5_inherited_tier_reaches_service_witness:
  "map_of pricing ''constructor'' = None \<and>
   calculate_budget (\<lambda>m k. Absent) (respond_with (JNum (Fin 100000))) inherited_tier_body =
     (Reply 200 (budget_json (Fin 100) (Fin 1000) NaN (Fin 0) NaN NaN),
      [\<lparr>origins = JStr ''Delhi'', destinations = JStr ''Agra''\<rparr>])"
proof -
  have tier: "body_field inherited_tier_body ''budgetLevel'' = JStr ''constructor''"
    by (simp add: body_field_def inherited_tier_body_def)
  have member: "''constructor'' \<in> set object_prototype_members"
    by (simp add: object_prototype_members_def)
  have mode: "get_prop transportPricing (body_field inherited_tier_body ''transportMode'')
      = Own [(''Ordinary State Bus'', 2), (''Volvo Non-AC'', 7 / 2), (''AC Bus'', 5)]"
    by (simp add: table_defs inherited_tier_body_def)
  have fare: "get_prop [(''Ordinary State Bus'', 2), (''Volvo Non-AC'', 7 / 2), (''AC Bus'', 5 :: rat)]
      (body_field inherited_tier_body ''transportSubtype'') = Own 5"
    by (simp add: table_defs inherited_tier_body_def)
  have run: "calculate_budget (\<lambda>m k. Absent) (respond_with (JNum (Fin 100000))) inherited_tier_body =
     (Reply 200 (budget_json (Fin 100) (Fin 1000) NaN (Fin 0) NaN NaN),
      [\<lparr>origins = JStr ''Delhi'', destinations = JStr ''Agra''\<rparr>])"
    by (simp add: calculate_budget_def transport_rate_def table_defs inherited_tier_body_def
          respond_with_def first_distance_value_def or_zero_def shopping_cost_def Let_def)
  from C5_inherited_tier_reaches_service [OF tier member mode fare] run
  show ?thesis by simp
qed







section \<open>Properties of tokens and the gate\<close>

lemmas demo_defs = demo_env_def asha_def asha_signup_def asha_login_def asha_payload_def
  ravi_payload_def trip_def goa_trip_def body_field_def






section \<open>Properties of signup\<close>

lemma find_append_new:
  "find P xs = None \<Longrightarrow> P u \<Longrightarrow> find P (xs @ [u]) = Some u"
  by (induction xs) (auto split: if_splits)

lemma save_user_then_found:
  assumes "save_user users u = Some users'"
  shows "users' = users @ [u] \<and> findOne_email users' (email u) = Some u"
  using assms
  by (auto simp: save_user_def findOne_email_def find_append_new split: option.splits)

lemma signup_created:
  assumes "signup env salt oid users b = (Reply 201 m, users')"
  shows "\<exists>pw. body_field b ''password'' = JStr pw
    \<and> users' = users @ [\<lparr>user_id = oid, name = body_field b ''name'', email = body_field b ''email'',
                           password = bcrypt_hash env salt pw\<rparr>]
    \<and> findOne_email users' (body_field b ''email'')
        = Some \<lparr>user_id = oid, name = body_field b ''name'', email = body_field b ''email'',
                 password = bcrypt_hash env salt pw\<rparr>"
proof -
  from assms obtain pw where pw: "body_field b ''password'' = JStr pw"
    and saved: "save_user users \<lparr>user_id = oid, name = body_field b ''name'',
        email = body_field b ''email'', password = bcrypt_hash env salt pw\<rparr> = Some users'"
    by (auto simp: signup_def Let_def split: if_splits option.splits jsval.splits)
  from save_user_then_found [OF saved] pw show ?thesis by auto
qed

lemma signup_route_created:
  assumes "signup_route env salt oid users b = (Reply 201 m, users')"
  shows "\<exists>pw. body_field b ''password'' = JStr pw
    \<and> users' = users @ [\<lparr>user_id = oid, name = body_field b ''name'', email = body_field b ''email'',
                           password = bcrypt_hash env salt pw\<rparr>]
    \<and> findOne_email users' (body_field b ''email'')
        = Some \<lparr>user_id = oid, name = body_field b ''name'', email = body_field b ''email'',
                 password = bcrypt_hash env salt pw\<rparr>"
proof -
  from assms obtain pw where pw: "body_field b ''password'' = JStr pw"
    and saved: "save_user users \<lparr>user_id = oid, name = body_field b ''name'',
        email = body_field b ''email'', password = bcrypt_hash env salt pw\<rparr> = Some users'"
    by (auto simp: signup_route_def Let_def split: if_splits option.splits jsval.splits)
  from save_user_then_found [OF saved] pw show ?thesis by auto
qed

text \<open>
  C3. When a signup has succeeded, a second signup with the same email (and, for server.js,
  a name and a password; for routes/auth.js, a password that is a string) is answered 400
  \<^verbatim>\<open>Email already exists!\<close>; the collection is the one the first signup left, and the first
  user's document still holds the name, the email and the hash of the first request.
\<close>

theorem C3_duplicate_email_conflict:
  fixes env :: "'sg env"
  assumes same: "body_field req_b ''email'' = body_field req_a ''email''"
  shows "(signup env salt_a oid_a users req_a = (Reply 201 m, users_a)
          \<and> truthy (body_field req_b ''name'') \<and> truthy (body_field req_b ''password'')
        \<longrightarrow> signup env salt_b oid_b users_a req_b = (Reply 400 (error_body ''Email already exists!''), users_a)
          \<and> (\<exists>pw. findOne_email (snd (signup env salt_b oid_b users_a req_b)) (body_field req_a ''email'')
                = Some \<lparr>user_id = oid_a, name = body_field req_a ''name'',
                         email = body_field req_a ''email'', password = bcrypt_hash env salt_a pw\<rparr>
              \<and> body_field req_a ''password'' = JStr pw))
    \<and> (signup_route env salt_a oid_a users req_a = (Reply 201 m, users_a)
          \<and> body_field req_b ''password'' = JStr pw_b
        \<longrightarrow> signup_route env salt_b oid_b users_a req_b
              = (Reply 400 (error_body ''Email already exists!''), users_a)
          \<and> (\<exists>pw. findOne_email (snd (signup_route env salt_b oid_b users_a req_b)) (body_field req_a ''email'')
                = Some \<lparr>user_id = oid_a, name = body_field req_a ''name'',
                         email = body_field req_a ''email'', password = bcrypt_hash env salt_a pw\<rparr>
              \<and> body_field req_a ''password'' = JStr pw))"
proof (intro conjI impI)
  assume h: "signup env salt_a oid_a users req_a = (Reply 201 m, users_a)
          \<and> truthy (body_field req_b ''name'') \<and> truthy (body_field req_b ''password'')"
  then have first: "signup env salt_a oid_a users req_a = (Reply 201 m, users_a)" by simp
  from signup_created [OF first] obtain pw where pw: "body_field req_a ''password'' = JStr pw"
    and found: "findOne_email users_a (body_field req_a ''email'')
        = Some \<lparr>user_id = oid_a, name = body_field req_a ''name'', email = body_field req_a ''email'',
                 password = bcrypt_hash env salt_a pw\<rparr>"
    by blast
  from first have "truthy (body_field req_a ''email'')"
    by (auto simp: signup_def Let_def split: if_splits)
  with h found same
  show second: "signup env salt_b oid_b users_a req_b = (Reply 400 (error_body ''Email already exists!''), users_a)"
    by (simp add: signup_def Let_def)
  from second found pw
  show "\<exists>pw. findOne_email (snd (signup env salt_b oid_b users_a req_b)) (body_field req_a ''email'')
                = Some \<lparr>user_id = oid_a, name = body_field req_a ''name'',
                         email = body_field req_a ''email'', password = bcrypt_hash env salt_a pw\<rparr>
              \<and> body_field req_a ''password'' = JStr pw"
    by simp
next
  assume h: "signup_route env salt_a oid_a users req_a = (Reply 201 m, users_a)
          \<and> body_field req_b ''password'' = JStr pw_b"
  then have first: "signup_route env salt_a oid_a users req_a = (Reply 201 m, users_a)" by simp
  from signup_route_created [OF first] obtain pw where pw: "body_field req_a ''password'' = JStr pw"
    and found: "findOne_email users_a (body_field req_a ''email'')
        = Some \<lparr>user_id = oid_a, name = body_field req_a ''name'', email = body_field req_a ''email'',
                 password = bcrypt_hash env salt_a pw\<rparr>"
    by blast
  from h found same
  show second: "signup_route env salt_b oid_b users_a req_b
      = (Reply 400 (error_body ''Email already exists!''), users_a)"
    by (simp add: signup_route_def save_user_def Let_def)
  from second found pw
  show "\<exists>pw. findOne_email (snd (signup_route env salt_b oid_b users_a req_b)) (body_field req_a ''email'')
                = Some \<lparr>user_id = oid_a, name = body_field req_a ''name'',
                         email = body_field req_a ''email'', password = bcrypt_hash env salt_a pw\<rparr>
              \<and> body_field req_a ''password'' = JStr pw"
    by simp
qed

theorem C3_duplicate_email_conflict_witness:
  "signup demo_env ''salt'' ''u1'' [] asha_signup
      = (Reply 201 (message_body ''User registered successfully!''), [asha])
   \<and> signup demo_env ''pepper'' ''u2'' [asha] asha_again
      = (Reply 400 (error_body ''Email already exists!''), [asha])
   \<and> signup_route demo_env ''salt'' ''u1'' [] asha_signup
      = (Reply 201 (message_body ''User registered successfully!''), [asha])
   \<and> signup_route demo_env ''pepper'' ''u2'' [asha] asha_again
      = (Reply 400 (error_body ''Email already exists!''), [asha])"
proof -
  have same: "body_field asha_again ''email'' = body_field asha_signup ''email''"
    by (simp add: demo_defs asha_again_def)
  have s1: "signup demo_env ''salt'' ''u1'' [] asha_signup
      = (Reply 201 (message_body ''User registered successfully!''), [asha])"
    by (simp add: signup_def save_user_def findOne_email_def demo_defs Let_def)
  have r1: "signup_route demo_env ''salt'' ''u1'' [] asha_signup
      = (Reply 201 (message_body ''User registered successfully!''), [asha])"
    by (simp add: signup_route_def save_user_def findOne_email_def demo_defs Let_def)
  have t: "truthy (body_field asha_again ''name'') \<and> truthy (body_field asha_again ''password'')"
    by (simp add: demo_defs asha_again_def)
  have p: "body_field asha_again ''password'' = JStr ''other''"
    by (simp add: demo_defs asha_again_def)
  note c3 = C3_duplicate_email_conflict [OF same, where env = demo_env and salt_a = "''salt''"
      and oid_a = "''u1''" and users = "[]" and users_a = "[asha]"
      and m = "message_body ''User registered successfully!''" and salt_b = "''pepper''"
      and oid_b = "''u2''" and pw_b = "''other''"]
  from c3 s1 t have s2: "signup demo_env ''pepper'' ''u2'' [asha] asha_again
      = (Reply 400 (error_body ''Email already exists!''), [asha])" by blast
  from c3 r1 p have r2: "signup_route demo_env ''pepper'' ''u2'' [asha] asha_again
      = (Reply 400 (error_body ''Email already exists!''), [asha])" by blast
  from s1 s2 r1 r2 show ?thesis by simp
qed

text \<open>
  The handler of server.js refuses a request in which the name, the email or the password
  is missing or empty, and leaves the collection as it was.
\<close>

lemma signup_requires_all_fields:
  assumes "\<not> truthy (body_field b ''name'') \<or> \<not> truthy (body_field b ''email'')
     \<or> \<not> truthy (body_field b ''password'')"
  shows "signup env salt oid users b = (Reply 400 (error_body ''All fields are required!''), users)"
  using assms by (auto simp: signup_def Let_def)

text \<open>
  A password that is missing, or is no string, leaves the route of routes/auth.js without
  any reply: the hash is taken outside the \<^verbatim>\<open>try\<close>.
\<close>

lemma signup_route_no_password_no_reply:
  assumes "\<forall>pw. body_field b ''password'' \<noteq> JStr pw"
  shows "signup_route env salt oid users b = (No_reply, users)"
  using assms by (cases "body_field b ''password''") (simp_all add: signup_route_def Let_def)

text \<open>
  C4. The claim: a registration in which the name, the email or the password is missing or
  empty is answered 400 and creates no user. The route of routes/auth.js has no such check:
  whenever the password is a string (the empty one included) and the email is not taken, it
  answers 201 and stores the user, whatever the name and the email are.
\<close>

theorem C4_signup_route_skips_validation:
  fixes env :: "'sg env"
  assumes pw: "body_field b ''password'' = JStr pw"
    and fresh: "findOne_email users (body_field b ''email'') = None"
  shows "signup_route env salt oid users b =
     (Reply 201 (message_body ''User registered successfully!''),
      users @ [\<lparr>user_id = oid, name = body_field b ''name'', email = body_field b ''email'',
                 password = bcrypt_hash env salt pw\<rparr>])"
  using assms by (simp add: signup_route_def save_user_def Let_def)

text \<open>
  At a request with an empty name and an empty password: server.js answers 400 and stores
  nothing, routes/auth.js answers 201 and stores the user.
\<close>

theorem C4_signup_route_skips_validation_witness:
  "\<not> truthy (body_field nameless_signup ''name'')
   \<and> \<not> truthy (body_field nameless_signup ''password'')
   \<and> signup demo_env ''salt'' ''u2'' [asha] nameless_signup
       = (Reply 400 (error_body ''All fields are required!''), [asha])
   \<and> signup_route demo_env ''salt'' ''u2'' [asha] nameless_signup
       = (Reply 201 (message_body ''User registered successfully!''),
          [asha, \<lparr>user_id = ''u2'', name = JStr '''', email = JStr ''ravi@example.com'',
                   password = ''salt$''\<rparr>])"
proof -
  have pw: "body_field nameless_signup ''password'' = JStr ''''"
    by (simp add: nameless_signup_def body_field_def)
  have fresh: "findOne_email [asha] (body_field nameless_signup ''email'') = None"
    by (simp add: findOne_email_def index_key_def nameless_signup_def demo_defs)
  have srv: "signup demo_env ''salt'' ''u2'' [asha] nameless_signup
       = (Reply 400 (error_body ''All fields are required!''), [asha])"
    by (rule signup_requires_all_fields) (simp add: nameless_signup_def body_field_def)
  from C4_signup_route_skips_validation [OF pw fresh, of demo_env "''salt''" "''u2''"] srv
  show ?thesis
    by (simp add: nameless_signup_def demo_defs)
qed

section \<open>Properties of the replies that describe a user\<close>

lemma has_field_login_json: "\<not> has_field ''password'' (login_json tok u)"
  by (simp add: login_json_def)

lemma has_field_login_route_json: "\<not> has_field ''password'' (login_route_json tok u)"
  by (simp add: login_route_json_def)

lemma has_field_error_body: "\<not> has_field ''password'' (error_body m)"
  by (simp add: error_body_def)

lemma login_no_password: "\<not> reply_has_field ''password'' (login env now users b)"
  by (simp add: login_def Let_def has_field_login_json has_field_error_body
        split: option.splits jsval.splits)

lemma login_route_no_password: "\<not> reply_has_field ''password'' (login_route env now users b)"
  by (simp add: login_route_def Let_def has_field_login_route_json has_field_error_body
        split: option.splits jsval.splits)

lemma user_data_no_password: "\<not> reply_has_field ''password'' (user_data decoded users)"
  by (simp add: user_data_def select_minus_def user_document_def split: option.splits)

lemma gate_reply_no_password:
  "authenticateToken env now authorization = Halt r \<Longrightarrow> \<not> reply_has_field ''password'' r"
  by (auto simp: authenticateToken_def has_field_error_body
        split: option.splits if_splits sum.splits)

lemma user_data_route_no_password:
  "\<not> reply_has_field ''password'' (user_data_route env now authorization users)"
  by (simp add: user_data_route_def user_data_no_password gate_reply_no_password split: gate.splits)

text \<open>
  C6. No reply of a login handler and no reply of \<^verbatim>\<open>/user-data\<close> has a field named
  \<^verbatim>\<open>password\<close>, at any depth. The body of a successful login holds the message, the token
  and a user object with the id, the name (under \<^verbatim>\<open>name\<close> in server.js, under \<^verbatim>\<open>username\<close> in
  routes/auth.js) and the email, and in routes/auth.js the travel history; \<^verbatim>\<open>/user-data\<close>
  answers the user document without its password path. None of the three depends on the
  stored hash.
\<close>

theorem C6_no_password_in_replies:
  "\<not> reply_has_field ''password'' (login env now users b)
   \<and> \<not> reply_has_field ''password'' (login_route env now users b)
   \<and> \<not> reply_has_field ''password'' (user_data decoded users)
   \<and> \<not> reply_has_field ''password'' (user_data_route env now authorization users)
   \<and> login_json tok u
       = JObj [(''message'', JV (JStr ''Login successful!'')), (''token'', JV (JStr tok)),
               (''user'', JObj [(''id'', JV (JStr (user_id u))), (''name'', JV (name u)),
                                (''email'', JV (email u))])]
   \<and> login_route_json tok u
       = JObj [(''message'', JV (JStr ''Login successful!'')), (''token'', JV (JStr tok)),
               (''user'', JObj [(''id'', JV (JStr (user_id u))), (''username'', JV (name u)),
                                (''email'', JV (email u)), (''travelHistory'', JArr [])])]
   \<and> login_json tok (u\<lparr>password := h\<rparr>) = login_json tok u
   \<and> login_route_json tok (u\<lparr>password := h\<rparr>) = login_route_json tok u
   \<and> select_minus ''password'' (user_document (u\<lparr>password := h\<rparr>))
       = select_minus ''password'' (user_document u)
   \<and> map fst (select_minus ''password'' (user_document u)) = [''_id'', ''name'', ''email'', ''__v'']"
  by (simp add: login_no_password login_route_no_password user_data_no_password
        user_data_route_no_password login_json_def login_route_json_def select_minus_def
        user_document_def)

theorem C6_no_password_in_replies_witness:
  "login demo_env 1000 [asha] asha_login
     = Reply 200 (JObj [(''message'', JV (JStr ''Login successful!'')),
                        (''token'', JV (JStr ''u1.s3cret:u1'')),
                        (''user'', JObj [(''id'', JV (JStr ''u1'')), (''name'', JV (JStr ''Asha'')),
                                         (''email'', JV (JStr ''asha@example.com''))])])
   \<and> user_data asha_payload [asha]
     = Reply 200 (JObj [(''_id'', JV (JStr ''u1'')), (''name'', JV (JStr ''Asha'')),
                        (''email'', JV (JStr ''asha@example.com'')), (''__v'', JV (JNum (Fin 0)))])
   \<and> \<not> reply_has_field ''password'' (login demo_env 1000 [asha] asha_login)
   \<and> \<not> reply_has_field ''password'' (user_data asha_payload [asha])"
proof -
  have a: "login demo_env 1000 [asha] asha_login
     = Reply 200 (login_json ''u1.s3cret:u1'' asha)"
    by (simp add: login_def findOne_email_def index_key_def jwt_sign_def demo_defs Let_def)
  have b: "user_data asha_payload [asha]
     = Reply 200 (JObj (select_minus ''password'' (user_document asha)))"
    by (simp add: user_data_def findById_def demo_defs)
  have c: "user_document asha = [(''_id'', JV (JStr ''u1'')), (''name'', JV (JStr ''Asha'')),
      (''email'', JV (JStr ''asha@example.com'')), (''password'', JV (JStr ''salt$pw1'')),
      (''__v'', JV (JNum (Fin 0)))]"
    by (simp add: user_document_def asha_def)
  from C6_no_password_in_replies [of demo_env 1000 "[asha]" asha_login asha_payload
      None "''u1.s3cret:u1''" asha "''x''"] a b c
  show ?thesis
    by (simp add: select_minus_def asha_def)
qed

section \<open>Properties of the travel records\<close>






lemma save_travel_owner:
  "snd (save_travel decoded clock oid travels b) = travels
   \<or> (\<exists>t. snd (save_travel decoded clock oid travels b) = travels @ [t]
          \<and> userId t = payload_id decoded)"
  by (simp add: save_travel_def Let_def)

lemma save_travel_reads_three_fields:
  assumes "body_field b' ''destination'' = body_field b ''destination''"
    and "body_field b' ''budget'' = body_field b ''budget''"
    and "body_field b' ''nights'' = body_field b ''nights''"
  shows "save_travel decoded clock oid travels b' = save_travel decoded clock oid travels b"
  using assms by (simp add: save_travel_def)

lemma gate_passes_verified_payload:
  assumes "authenticateToken env now authorization = Next decoded"
  shows "\<exists>token. bearer_token authorization = Some token \<and> jwt_verify env token now = Inr decoded"
  using assms
  by (auto simp: authenticateToken_def split: option.splits if_splits sum.splits)

text \<open>
  C10. When the gate lets a request through, the payload it hands on is the one the verified
  bearer token decodes to; \<^verbatim>\<open>/save-travel\<close> then either stores nothing or appends one record
  whose owner is the id of that payload, so every record of the collection afterwards was
  there before or is owned by the token's user; and a \<^verbatim>\<open>userId\<close> field in the body changes
  nothing. When the gate answers itself (401, 403), nothing is stored.
\<close>

theorem C10_owner_is_token_user:
  fixes env :: "'sg env"
  shows "(authenticateToken env now authorization = Next decoded
      \<longrightarrow> (\<exists>token. bearer_token authorization = Some token \<and> jwt_verify env token now = Inr decoded)
        \<and> (snd (save_travel_route env now authorization clock oid travels b) = travels
            \<or> (\<exists>t. snd (save_travel_route env now authorization clock oid travels b) = travels @ [t]
                  \<and> userId t = payload_id decoded))
        \<and> (\<forall>t \<in> set (snd (save_travel_route env now authorization clock oid travels b)).
              t \<in> set travels \<or> userId t = payload_id decoded)
        \<and> save_travel_route env now authorization clock oid travels ((''userId'', claimed) # b)
            = save_travel_route env now authorization clock oid travels b)
    \<and> (authenticateToken env now authorization = Halt r
      \<longrightarrow> save_travel_route env now authorization clock oid travels b = (r, travels))"
proof (intro conjI impI)
  assume gate: "authenticateToken env now authorization = Next decoded"
  then have route: "save_travel_route env now authorization clock oid travels c
      = save_travel decoded clock oid travels c" for c
    by (simp add: save_travel_route_def)
  from gate show "\<exists>token. bearer_token authorization = Some token
      \<and> jwt_verify env token now = Inr decoded"
    by (rule gate_passes_verified_payload)
  show own: "snd (save_travel_route env now authorization clock oid travels b) = travels
            \<or> (\<exists>t. snd (save_travel_route env now authorization clock oid travels b) = travels @ [t]
                  \<and> userId t = payload_id decoded)"
    unfolding route by (rule save_travel_owner)
  from own show "\<forall>t \<in> set (snd (save_travel_route env now authorization clock oid travels b)).
              t \<in> set travels \<or> userId t = payload_id decoded"
    by auto
  show "save_travel_route env now authorization clock oid travels ((''userId'', claimed) # b)
            = save_travel_route env now authorization clock oid travels b"
    unfolding route by (rule save_travel_reads_three_fields) (simp_all add: body_field_def)
next
  assume "authenticateToken env now authorization = Halt r"
  then show "save_travel_route env now authorization clock oid travels b = (r, travels)"
    by (simp add: save_travel_route_def)
qed

theorem C10_owner_is_token_user_witness:
  "authenticateToken demo_env 2000 (Some ''Bearer u1.s3cret:u1'') = Next asha_payload
   \<and> save_travel_route demo_env 2000 (Some ''Bearer u1.s3cret:u1'') 400 ''t4'' []
        ((''userId'', JStr ''u2'') # goa_trip)
       = (Reply 201 (message_body ''Travel data saved successfully!''), [trip ''t4'' ''u1'' 400])
   \<and> save_travel_route demo_env 2000 (Some ''Bearer u1.s3cret:u1'') 400 ''t4'' [] goa_trip
       = (Reply 201 (message_body ''Travel data saved successfully!''), [trip ''t4'' ''u1'' 400])
   \<and> save_travel_route demo_env 2000 (Some ''Bearer u1.forged'') 400 ''t4'' [] goa_trip
       = (Reply 403 (error_body ''Invalid token!''), [])
   \<and> save_travel_route demo_env 2000 None 400 ''t4'' [] goa_trip
       = (Reply 401 (error_body ''Access denied!''), [])"
proof -
  have gate: "authenticateToken demo_env 2000 (Some ''Bearer u1.s3cret:u1'') = Next asha_payload"
    by (simp add: authenticateToken_def bearer_token_def jwt_verify_def demo_defs)
  have forged: "authenticateToken demo_env 2000 (Some ''Bearer u1.forged'')
      = Halt (Reply 403 (error_body ''Invalid token!''))"
    by (simp add: authenticateToken_def bearer_token_def jwt_verify_def demo_defs)
  have missing: "authenticateToken demo_env 2000 None
      = Halt (Reply 401 (error_body ''Access denied!''))"
    by (simp add: authenticateToken_def bearer_token_def)
  have plain: "save_travel_route demo_env 2000 (Some ''Bearer u1.s3cret:u1'') 400 ''t4'' [] goa_trip
       = (Reply 201 (message_body ''Travel data saved successfully!''), [trip ''t4'' ''u1'' 400])"
    by (simp add: save_travel_route_def gate save_travel_def asha_payload_def trip_def
          goa_trip_def body_field_def Let_def)
  have spoof: "save_travel_route demo_env 2000 (Some ''Bearer u1.s3cret:u1'') 400 ''t4'' []
        ((''userId'', JStr ''u2'') # goa_trip)
      = save_travel_route demo_env 2000 (Some ''Bearer u1.s3cret:u1'') 400 ''t4'' [] goa_trip"
    using C10_owner_is_token_user [where env = demo_env and now = 2000
        and authorization = "Some ''Bearer u1.s3cret:u1''" and decoded = asha_payload
        and clock = 400 and oid = "''t4''" and travels = "[]" and b = goa_trip
        and claimed = "JStr ''u2''"] gate
    by blast
  have f: "save_travel_route demo_env 2000 (Some ''Bearer u1.forged'') 400 ''t4'' [] goa_trip
       = (Reply 403 (error_body ''Invalid token!''), [])"
    using C10_owner_is_token_user [where env = demo_env and now = 2000
        and authorization = "Some ''Bearer u1.forged''" and clock = 400 and oid = "''t4''"
        and travels = "[]" and b = goa_trip and r = "Reply 403 (error_body ''Invalid token!'')"]
      forged
    by blast
  have m: "save_travel_route demo_env 2000 None 400 ''t4'' [] goa_trip
       = (Reply 401 (error_body ''Access denied!''), [])"
    by (simp add: save_travel_route_def missing)
  from gate spoof plain f m show ?thesis by simp
qed

end
